theory Spec2Isabelle
  imports Complex_Main "HOL-Library.Sublist" "HOL-Library.Multiset"
begin

section \<open>The expense tracker of script.js\<close>

text \<open>
  The program keeps one module-level array \<open>expenses\<close>, mirrors it into the
  \<open>localStorage\<close> slot \<open>'expenses'\<close> after every change, and re-renders the list and
  the summary panel from it. The model below follows \<open>script.js\<close> function by function.

  Conventions of the model.
  \<^item> A JavaScript number is a rational: the values are exact, and NaN, the infinities and
    the rounding of binary floating point are not represented. Where the source can meet
    NaN (\<open>parseFloat\<close>) the model uses \<open>None\<close>.
  \<^item> A text is a \<open>string\<close> whose characters are the code units 0 to 255.
  \<^item> What the browser supplies (\<open>JSON.parse\<close>, \<open>JSON.stringify\<close>, \<open>parseFloat\<close>, the
    options of the category select, date formatting) is a field of the record \<open>platform\<close>,
    and a function of the program that uses one of them takes the platform as its first
    argument.
  \<^item> What the outside world supplies at one call (the clock, the answer to \<open>confirm\<close>,
    whether the storage accepts a write, today's date) is an argument of that call.
  \<^item> A function that can end in an uncaught exception returns the exception, if any, beside
    the state it leaves: JavaScript does not undo the assignments made before a throw.
\<close>

subsection \<open>Data\<close>

text \<open>The object literal built in \<open>addExpense\<close>; the field \<open>id\<close> is called \<open>ident\<close> here.\<close>

record expense =
  ident :: int
  amount :: rat
  description :: string
  category :: string
  date :: string

text \<open>
  The result of \<open>JSON.parse\<close> on the slot's text: it throws a \<open>SyntaxError\<close>, or it returns
  a value. The store is typed, so the values of this model are the arrays of expense objects.
\<close>

datatype parsed = SyntaxError | Parsed "expense list"

record platform =
  JSON_parse :: "string \<Rightarrow> parsed"
  JSON_stringify :: "expense list \<Rightarrow> string"
  parseFloat :: "string \<Rightarrow> rat option"
  option_text :: "string \<Rightarrow> string option"
  toLocaleDateString :: "string \<Rightarrow> string"

text \<open>
  \<open>option_text pf c\<close> is the \<open>textContent\<close> of the element that
  \<open>categorySelect.querySelector('option[value="c"]')\<close> finds, and \<open>None\<close> when it finds none
  (the query returns \<open>null\<close>, and reading \<open>textContent\<close> of it throws a \<open>TypeError\<close>).
\<close>

datatype error = TypeError

text \<open>The amount texts of the page start with the rupee sign; \<open>Rupees d\<close> is that sign
  followed by the digits \<open>d\<close>.\<close>

datatype money = Rupees string

text \<open>One \<open>div.expense-item\<close> of the rendered list.\<close>

record item =
  item_amount :: money
  item_description :: string
  item_category :: string
  item_badge :: string
  item_date :: string
  item_delete :: int

text \<open>The content of \<open>expenseList.innerHTML\<close>: the empty-state message, or the items.\<close>

datatype listing = EmptyState string | Items "item list"

text \<open>
  The state: the array, the storage slot, the four inputs of the form, the filter select,
  and the elements the program writes. \<open>errorMessage = Some m\<close> is the message \<open>m\<close> on
  display (the timer that hides it three seconds later is not part of the model).
\<close>

record state =
  expenses :: "expense list"
  localStorage :: "string option"
  amountInput :: string
  descriptionInput :: string
  categorySelect :: string
  dateInput :: string
  filterCategory :: string
  errorMessage :: "string option"
  expenseList :: listing
  totalAmount :: money
  totalCount :: nat
  highestCategory :: string

subsection \<open>Library functions of the language\<close>

text \<open>\<open>String.prototype.trim\<close>: white space and line terminators among the code units
  0 to 255 are 9 to 13, 32 and 160.\<close>

definition white_space :: "char \<Rightarrow> bool" where
  "white_space c \<longleftrightarrow> of_char c \<in> {9, 10, 11, 12, 13, 32, 160 :: nat}"

definition trim :: "string \<Rightarrow> string" where
  "trim s = rev (dropWhile white_space (rev (dropWhile white_space s)))"

text \<open>
  \<open>Number.prototype.toFixed(2)\<close>: the sign, then the integer \<open>n\<close> nearest to one hundred
  times the magnitude (the larger one of two equally near), written with two decimals.
  JavaScript writes a number this way below \<open>10^21\<close>, where the integer part has at most
  21 digits, and switches to exponent notation from there on; the model writes up to 22
  digits and does not follow the switch.
\<close>

definition digit :: "int \<Rightarrow> char" where
  "digit d = char_of (48 + d)"

primrec digits_fuel :: "nat \<Rightarrow> int \<Rightarrow> string" where
  "digits_fuel 0 n = []"
| "digits_fuel (Suc k) n =
     (if n < 10 then [digit n] else digits_fuel k (n div 10) @ [digit (n mod 10)])"

definition toFixed2 :: "rat \<Rightarrow> string" where
  "toFixed2 x =
     (let n = \<lfloor>\<bar>x\<bar> * 100 + 1 / 2\<rfloor>
      in (if x < 0 then ''-'' else []) @ digits_fuel 22 (n div 100) @ ''.'' @
         [digit (n mod 100 div 10), digit (n mod 10)])"

text \<open>Sequencing: the statements after a call run only if the call did not throw.\<close>

definition thenDo ::
  "error option \<times> state \<Rightarrow> (state \<Rightarrow> error option \<times> state) \<Rightarrow> error option \<times> state" where
  "thenDo r f = (case r of (None, st) \<Rightarrow> f st | (Some e, st) \<Rightarrow> (Some e, st))"

subsection \<open>The totals object of \<open>updateSummary\<close>\<close>

text \<open>
  \<open>categoryTotals\<close> is an object literal \<open>{}\<close> used as a dictionary from category code to
  sum. The model keeps its own properties in creation order. A value is a number, or a
  text: the latter arises when the key names a member that \<open>{}\<close> inherits from
  \<open>Object.prototype\<close>, because then \<open>acc[key] || 0\<close> is the inherited member and \<open>+\<close>
  concatenates. The content of such a text is not needed: it never reads as a number.
\<close>

datatype total = Num rat | Text

definition Object_prototype_names :: "string list" where
  "Object_prototype_names =
     [''constructor'', ''hasOwnProperty'', ''isPrototypeOf'', ''propertyIsEnumerable'',
      ''toLocaleString'', ''toString'', ''valueOf'', ''__proto__'', ''__defineGetter__'',
      ''__defineSetter__'', ''__lookupGetter__'', ''__lookupSetter__'']"

text \<open>Assigning to a property: an existing own property keeps its place, a new one is
  created last.\<close>

primrec set_property :: "string \<Rightarrow> total \<Rightarrow> (string \<times> total) list \<Rightarrow> (string \<times> total) list" where
  "set_property k v [] = [(k, v)]"
| "set_property k v (p # ps) = (if fst p = k then (k, v) # ps else p # set_property k v ps)"

text \<open>
  One step of the reducer, \<open>acc[expense.category] = (acc[expense.category] || 0) +
  expense.amount\<close>. A number that is \<open>0\<close> is falsy and replaced by \<open>0\<close>. The setter of
  \<open>__proto__\<close> ignores a value that is not an object, so that key never becomes a property.
\<close>

definition add_total :: "(string \<times> total) list \<Rightarrow> expense \<Rightarrow> (string \<times> total) list" where
  "add_total acc e =
     (let k = category e;
          v = (case map_of acc k of
                 Some (Num t) \<Rightarrow> Num ((if t = 0 then 0 else t) + amount e)
               | Some Text \<Rightarrow> Text
               | None \<Rightarrow> if k \<in> set Object_prototype_names then Text else Num (0 + amount e))
      in if k = ''__proto__'' then acc else set_property k v acc)"

definition categoryTotals :: "expense list \<Rightarrow> (string \<times> total) list" where
  "categoryTotals es = foldl add_total [] es"

text \<open>
  \<open>Object.entries\<close> lists the own properties whose key is an array index first, in
  ascending numeric order, and then the other keys in creation order. An array index is
  the canonical decimal text of an integer from \<open>0\<close> to \<open>2^32 - 2\<close>.
\<close>

definition is_digit :: "char \<Rightarrow> bool" where
  "is_digit c \<longleftrightarrow> 48 \<le> (of_char c :: nat) \<and> (of_char c :: nat) \<le> 57"

definition decimal_value :: "string \<Rightarrow> int" where
  "decimal_value s = foldl (\<lambda>n c. 10 * n + (of_char c - 48)) 0 s"

definition is_array_index :: "string \<Rightarrow> bool" where
  "is_array_index k \<longleftrightarrow>
     k \<noteq> [] \<and> list_all is_digit k \<and>
     (k = ''0'' \<or> hd k \<noteq> CHR ''0'') \<and> decimal_value k < 4294967295"

definition Object_entries :: "(string \<times> total) list \<Rightarrow> (string \<times> total) list" where
  "Object_entries obj =
     sort_key (\<lambda>p. decimal_value (fst p)) (filter (\<lambda>p. is_array_index (fst p)) obj) @
     filter (\<lambda>p. \<not> is_array_index (fst p)) obj"

text \<open>
  The comparator \<open>(a, b) => b[1] - a[1]\<close>; \<open>None\<close> is NaN, the difference when one side is
  a text. \<open>Array.prototype.sort\<close> reads NaN as \<open>0\<close>, is stable, and puts \<open>y\<close> before an
  earlier \<open>x\<close> only when the comparator is negative on \<open>(y, x)\<close>. (With a text among three
  or more entries the comparator need not be a consistent order, and the language then
  leaves the result to the engine; no theorem below rests on such a case.)
\<close>

definition compareFn :: "string \<times> total \<Rightarrow> string \<times> total \<Rightarrow> rat option" where
  "compareFn a b = (case (snd b, snd a) of (Num y, Num x) \<Rightarrow> Some (y - x) | _ \<Rightarrow> None)"

definition sortCompare :: "string \<times> total \<Rightarrow> string \<times> total \<Rightarrow> rat" where
  "sortCompare a b = (case compareFn a b of None \<Rightarrow> 0 | Some v \<Rightarrow> v)"

primrec insert_sorted :: "string \<times> total \<Rightarrow> (string \<times> total) list \<Rightarrow> (string \<times> total) list" where
  "insert_sorted y [] = [y]"
| "insert_sorted y (x # xs) =
     (if sortCompare y x < 0 then y # x # xs else x # insert_sorted y xs)"

definition js_sort :: "(string \<times> total) list \<Rightarrow> (string \<times> total) list" where
  "js_sort xs = foldl (\<lambda>sorted y. insert_sorted y sorted) [] xs"

text \<open>The constant \<open>highest\<close> of \<open>updateSummary\<close>: element \<open>0\<close> of the sorted entries,
  \<open>None\<close> for \<open>undefined\<close>.\<close>

definition highest :: "expense list \<Rightarrow> (string \<times> total) option" where
  "highest es =
     (case js_sort (Object_entries (categoryTotals es)) of [] \<Rightarrow> None | h # _ \<Rightarrow> Some h)"

subsection \<open>The functions of script.js\<close>

text \<open>\<open>showError\<close> (lines 71 to 79).\<close>

definition showError :: "string \<Rightarrow> state \<Rightarrow> state" where
  "showError message st = st\<lparr>errorMessage := Some message\<rparr>"

text \<open>\<open>formatDate\<close> (lines 86 to 93).\<close>

definition formatDate :: "platform \<Rightarrow> string \<Rightarrow> string" where
  "formatDate pf dateString = toLocaleDateString pf dateString"

text \<open>
  \<open>saveExpenses\<close> (lines 54 to 61). \<open>accepted\<close> says whether \<open>localStorage.setItem\<close>
  returns; when it throws, the handler shows the message and the array stays as it is.
\<close>

definition saveExpenses :: "platform \<Rightarrow> bool \<Rightarrow> state \<Rightarrow> state" where
  "saveExpenses pf accepted st =
     (if accepted then st\<lparr>localStorage := Some (JSON_stringify pf (expenses st))\<rparr>
      else showError ''Failed to save data. Storage might be full.'' st)"

text \<open>The constant \<open>filtered\<close> of \<open>renderExpenses\<close> (lines 223 to 225).\<close>

definition visible :: "string \<Rightarrow> expense list \<Rightarrow> expense list" where
  "visible flt es = (if flt = ''all'' then es else filter (\<lambda>e. category e = flt) es)"

text \<open>The body of the \<open>map\<close> callback (lines 243 to 261); \<open>None\<close> when the query for
  the option returns \<open>null\<close>.\<close>

definition render_item :: "platform \<Rightarrow> expense \<Rightarrow> item option" where
  "render_item pf e =
     (case option_text pf (category e) of
        None \<Rightarrow> None
      | Some categoryName \<Rightarrow>
          Some \<lparr>item_amount = Rupees (toFixed2 (amount e)),
                item_description = description e,
                item_category = category e,
                item_badge = categoryName,
                item_date = formatDate pf (date e),
                item_delete = ident e\<rparr>)"

text \<open>\<open>renderExpenses\<close> (lines 218 to 263). \<open>innerHTML\<close> is assigned after the whole
  \<open>map\<close> has run, so a throw inside it leaves the page as it was.\<close>

definition renderExpenses :: "platform \<Rightarrow> state \<Rightarrow> error option \<times> state" where
  "renderExpenses pf st =
     (let flt = filterCategory st;
          filtered = visible flt (expenses st)
      in if filtered = [] then
           (None, st\<lparr>expenseList := EmptyState
              (if flt = ''all'' then ''No expenses yet. Add your first expense!''
               else ''No expenses in this category'')\<rparr>)
         else
           (case those (map (render_item pf) filtered) of
              None \<Rightarrow> (Some TypeError, st)
            | Some rows \<Rightarrow> (None, st\<lparr>expenseList := Items rows\<rparr>)))"

text \<open>
  \<open>updateSummary\<close> (lines 269 to 298). The total and the count are written first; the
  label of the leading category is looked up last and may throw. \<open>split(' ')[0]\<close> keeps
  what stands before the first space.
\<close>

definition updateSummary :: "platform \<Rightarrow> state \<Rightarrow> error option \<times> state" where
  "updateSummary pf st =
     (let total = foldl (\<lambda>sum e. sum + amount e) 0 (expenses st);
          st1 = st\<lparr>totalAmount := Rupees (toFixed2 total), totalCount := length (expenses st)\<rparr>
      in if expenses st = [] then (None, st1\<lparr>highestCategory := ''-''\<rparr>)
         else
           (case highest (expenses st) of
              None \<Rightarrow> (None, st1)
            | Some h \<Rightarrow>
                (case option_text pf (fst h) of
                   None \<Rightarrow> (Some TypeError, st1)
                 | Some categoryName \<Rightarrow>
                     (None, st1\<lparr>highestCategory :=
                        takeWhile (\<lambda>c. c \<noteq> CHR '' '') categoryName\<rparr>))))"

text \<open>
  \<open>loadExpenses\<close> (lines 36 to 48). \<open>if (stored)\<close> is false for \<open>null\<close> and for the empty
  text; the \<open>catch\<close> replaces the array by \<open>[]\<close>.
\<close>

definition loadExpenses :: "platform \<Rightarrow> state \<Rightarrow> error option \<times> state" where
  "loadExpenses pf st =
     (let st1 =
        (case localStorage st of
           None \<Rightarrow> st
         | Some stored \<Rightarrow>
             if stored = [] then st
             else (case JSON_parse pf stored of
                     Parsed v \<Rightarrow> st\<lparr>expenses := v\<rparr>
                   | SyntaxError \<Rightarrow> st\<lparr>expenses := []\<rparr>))
      in thenDo (renderExpenses pf st1) (updateSummary pf))"

text \<open>
  \<open>validateInput\<close> (lines 103 to 126): the verdict, and the state with the message shown
  on a refusal. \<open>!amount\<close> holds for NaN and for \<open>0\<close>.
\<close>

definition validateInput :: "platform \<Rightarrow> state \<Rightarrow> bool \<times> state" where
  "validateInput pf st =
     (let amount = parseFloat pf (amountInput st);
          description = trim (descriptionInput st)
      in if (case amount of None \<Rightarrow> True | Some a \<Rightarrow> a = 0 \<or> a \<le> 0) then
           (False, showError ''Please enter a valid amount greater than 0'' st)
         else if description = [] then
           (False, showError ''Please enter a description'' st)
         else if dateInput st = [] then
           (False, showError ''Please select a date'' st)
         else (True, st))"

text \<open>\<open>clearForm\<close> (lines 183 to 189); \<open>today\<close> is the date \<open>new Date()\<close> gives.\<close>

definition clearForm :: "string \<Rightarrow> state \<Rightarrow> state" where
  "clearForm today st =
     st\<lparr>amountInput := [], descriptionInput := [], categorySelect := ''food'',
        dateInput := today\<rparr>"

text \<open>
  \<open>addExpense\<close> (lines 136 to 159). \<open>now\<close> is the value of \<open>Date.now()\<close>. After a successful
  validation \<open>parseFloat\<close> of the same text is a number; the model writes \<open>0\<close> for the NaN
  that cannot occur there.
\<close>

definition addExpense :: "platform \<Rightarrow> int \<Rightarrow> bool \<Rightarrow> string \<Rightarrow> state \<Rightarrow> error option \<times> state" where
  "addExpense pf now accepted today st =
     (case validateInput pf st of
        (False, st') \<Rightarrow> (None, st')
      | (True, st') \<Rightarrow>
          (let expense = \<lparr>ident = now,
                          amount = (case parseFloat pf (amountInput st') of
                                      Some a \<Rightarrow> a | None \<Rightarrow> 0),
                          description = trim (descriptionInput st'),
                          category = categorySelect st',
                          date = dateInput st'\<rparr>;
               st1 = st'\<lparr>expenses := expense # expenses st'\<rparr>;
               st2 = saveExpenses pf accepted st1
           in thenDo (thenDo (renderExpenses pf st2) (updateSummary pf))
                (\<lambda>s. (None, clearForm today s))))"

text \<open>\<open>deleteExpense\<close> (lines 165 to 178); \<open>confirmed\<close> is the answer to \<open>confirm\<close>.\<close>

definition deleteExpense :: "platform \<Rightarrow> int \<Rightarrow> bool \<Rightarrow> bool \<Rightarrow> state \<Rightarrow> error option \<times> state" where
  "deleteExpense pf i confirmed accepted st =
     (if confirmed then
        (let st1 = st\<lparr>expenses := filter (\<lambda>expense. ident expense \<noteq> i) (expenses st)\<rparr>;
             st2 = saveExpenses pf accepted st1
         in thenDo (renderExpenses pf st2) (updateSummary pf))
      else (None, st))"

text \<open>\<open>clearAllExpenses\<close> (lines 194 to 208).\<close>

definition clearAllExpenses :: "platform \<Rightarrow> bool \<Rightarrow> bool \<Rightarrow> state \<Rightarrow> error option \<times> state" where
  "clearAllExpenses pf confirmed accepted st =
     (if expenses st = [] then (None, showError ''No expenses to clear'' st)
      else if confirmed then
        (let st1 = st\<lparr>expenses := []\<rparr>;
             st2 = saveExpenses pf accepted st1
         in thenDo (renderExpenses pf st2) (updateSummary pf))
      else (None, st))"

subsection \<open>A session\<close>

text \<open>
  What the user can do once the page is loaded: edit the four inputs, choose a filter (the
  \<open>change\<close> listener calls \<open>renderExpenses\<close>), press Add or Enter, press a Delete button
  and answer the prompt, press Clear All and answer the prompt. An exception that leaves a
  handler is reported by the browser and the page goes on from the state reached.
\<close>

datatype event =
    TypeAmount string
  | TypeDescription string
  | ChooseCategory string
  | ChooseDate string
  | ChooseFilter string
  | ClickAdd int bool string
  | ClickDelete int bool bool
  | ClickClearAll bool bool

definition handle :: "platform \<Rightarrow> state \<Rightarrow> event \<Rightarrow> state" where
  "handle pf st ev =
     (case ev of
        TypeAmount t \<Rightarrow> st\<lparr>amountInput := t\<rparr>
      | TypeDescription t \<Rightarrow> st\<lparr>descriptionInput := t\<rparr>
      | ChooseCategory c \<Rightarrow> st\<lparr>categorySelect := c\<rparr>
      | ChooseDate d \<Rightarrow> st\<lparr>dateInput := d\<rparr>
      | ChooseFilter f \<Rightarrow> snd (renderExpenses pf (st\<lparr>filterCategory := f\<rparr>))
      | ClickAdd now accepted today \<Rightarrow> snd (addExpense pf now accepted today st)
      | ClickDelete i confirmed accepted \<Rightarrow> snd (deleteExpense pf i confirmed accepted st)
      | ClickClearAll confirmed accepted \<Rightarrow> snd (clearAllExpenses pf confirmed accepted st))"

text \<open>The script ends with the one call of \<open>loadExpenses\<close> (line 326); the events follow.\<close>

definition session :: "platform \<Rightarrow> state \<Rightarrow> event list \<Rightarrow> state" where
  "session pf st evs = foldl (handle pf) (snd (loadExpenses pf st)) evs"

subsection \<open>Notions of the specification\<close>

text \<open>The two constraints of the data model on a record: a positive amount and a
  description that is not empty.\<close>

definition well_formed :: "expense \<Rightarrow> bool" where
  "well_formed e \<longleftrightarrow> 0 < amount e \<and> description e \<noteq> []"

text \<open>The sum of a category: group the list by category and add the amounts of the group.\<close>

definition group_sum :: "expense list \<Rightarrow> string \<Rightarrow> rat" where
  "group_sum es c = sum_list (map amount (filter (\<lambda>e. category e = c) es))"

text \<open>The distinct elements of a list in the order of their first occurrence.\<close>

primrec first_seen :: "'a list \<Rightarrow> 'a list" where
  "first_seen [] = []"
| "first_seen (x # xs) = x # filter (\<lambda>y. y \<noteq> x) (first_seen xs)"

text \<open>The number a total stands for (a text stands for none; \<open>0\<close> is written for it).\<close>

primrec number_of :: "total \<Rightarrow> rat" where
  "number_of (Num r) = r"
| "number_of Text = 0"

subsection \<open>A platform for the examples\<close>

text \<open>
  A reader of decimal literals in the manner of \<open>parseFloat\<close>: leading white space, a
  sign, digits with an optional fraction, an optional exponent; the longest such prefix
  counts and anything after it is ignored. The literal \<open>Infinity\<close> has no rational value
  and is read as no number.
\<close>

definition read_exponent :: "string \<Rightarrow> int" where
  "read_exponent r =
     (case r of
        [] \<Rightarrow> 0
      | c # r1 \<Rightarrow>
          if c = CHR ''e'' \<or> c = CHR ''E'' then
            (case r1 of
               [] \<Rightarrow> 0
             | s # r2 \<Rightarrow>
                 if s = CHR ''-'' then - decimal_value (takeWhile is_digit r2)
                 else if s = CHR ''+'' then decimal_value (takeWhile is_digit r2)
                 else decimal_value (takeWhile is_digit r1))
          else 0)"

definition read_decimal :: "string \<Rightarrow> rat option" where
  "read_decimal s =
     (let s1 = dropWhile white_space s;
          negative = (s1 \<noteq> [] \<and> hd s1 = CHR ''-'');
          s2 = (if s1 \<noteq> [] \<and> (hd s1 = CHR ''-'' \<or> hd s1 = CHR ''+'') then tl s1 else s1);
          ip = takeWhile is_digit s2;
          r1 = dropWhile is_digit s2;
          dotted = (r1 \<noteq> [] \<and> hd r1 = CHR ''.'');
          fp = (if dotted then takeWhile is_digit (tl r1) else []);
          r2 = (if dotted then dropWhile is_digit (tl r1) else r1)
      in if ip = [] \<and> fp = [] then None
         else
           (let m = of_int (decimal_value (ip @ fp)) / 10 ^ length fp;
                x = read_exponent r2;
                v = (if 0 \<le> x then m * 10 ^ nat x else m / 10 ^ nat (- x))
            in Some (if negative then - v else v)))"

text \<open>A record that breaks both constraints of the data model, and the text of the array
  holding it.\<close>

definition free_lunch :: expense where
  "free_lunch = \<lparr>ident = 1, amount = - 5, description = [], category = ''food'',
                  date = ''2025-01-26''\<rparr>"

definition free_lunch_text :: string where
  "free_lunch_text =
     ''[{\"id\":1,\"amount\":-5,\"description\":\"\",\"category\":\"food\",\"date\":\"2025-01-26\"}]''"

text \<open>The storage codec of this platform is a stand-in that knows the two arrays of the
  examples; no example reads back a text it wrote.\<close>

definition browser :: platform where
  "browser =
     \<lparr>JSON_parse = (\<lambda>s. if s = ''[]'' then Parsed []
                         else if s = free_lunch_text then Parsed [free_lunch]
                         else SyntaxError),
      JSON_stringify = (\<lambda>es. if es = [free_lunch] then free_lunch_text else ''[]''),
      parseFloat = read_decimal,
      option_text = map_of [(''food'', ''F Food''), (''transport'', ''T Transport''),
                            (''constructor'', ''C Constructor''), (''1'', ''A One''),
                            (''2'', ''B Two'')],
      toLocaleDateString = (\<lambda>d. d)\<rparr>"

text \<open>The three records of the specification's example, newest first.\<close>

definition lunch :: expense where
  "lunch = \<lparr>ident = 1737900000003, amount = 100, description = ''lunch'',
             category = ''food'', date = ''2025-01-26''\<rparr>"

definition snack :: expense where
  "snack = \<lparr>ident = 1737900000002, amount = 50, description = ''snack'',
             category = ''food'', date = ''2025-01-26''\<rparr>"

definition bus_fare :: expense where
  "bus_fare = \<lparr>ident = 1737900000001, amount = 30, description = ''bus fare'',
                category = ''transport'', date = ''2025-01-25''\<rparr>"

text \<open>Two records of the category \<open>food\<close> that together cost what \<open>bus_fare\<close> costs.\<close>

definition cake :: expense where
  "cake = \<lparr>ident = 1737900000008, amount = 20, description = ''cake'',
            category = ''food'', date = ''2025-01-27''\<rparr>"

definition coffee :: expense where
  "coffee = \<lparr>ident = 1737900000007, amount = 10, description = ''coffee'',
              category = ''food'', date = ''2025-01-27''\<rparr>"

text \<open>Records whose category codes are not ordinary keys of an object: the name of a
  member of \<open>Object.prototype\<close>, and two array indices.\<close>

definition builder_fee :: expense where
  "builder_fee = \<lparr>ident = 1737900000004, amount = 3, description = ''builder'',
                   category = ''constructor'', date = ''2025-01-26''\<rparr>"

definition second_class :: expense where
  "second_class = \<lparr>ident = 1737900000006, amount = 30, description = ''train'',
                    category = ''2'', date = ''2025-01-26''\<rparr>"

definition first_class :: expense where
  "first_class = \<lparr>ident = 1737900000005, amount = 30, description = ''train'',
                   category = ''1'', date = ''2025-01-26''\<rparr>"

text \<open>The page before the script has run its last line.\<close>

definition fresh_page :: state where
  "fresh_page =
     \<lparr>expenses = [], localStorage = None, amountInput = [], descriptionInput = [],
      categorySelect = ''food'', dateInput = ''2025-01-26'', filterCategory = ''all'',
      errorMessage = None, expenseList = Items [], totalAmount = Rupees [],
      totalCount = 0, highestCategory = []\<rparr>"

text \<open>Three pages used in the examples: one record stored and a second draft typed in; two
  records that carry the same identifier; the three records of the example.\<close>

definition after_lunch :: state where
  "after_lunch =
     fresh_page\<lparr>expenses := [lunch], amountInput := ''50'', descriptionInput := '' snack ''\<rparr>"

definition twins :: state where
  "twins = fresh_page\<lparr>expenses := [snack\<lparr>ident := 1737900000003\<rparr>, lunch]\<rparr>"

definition full_page :: state where
  "full_page = fresh_page\<lparr>expenses := [lunch, snack, bus_fare]\<rparr>"

section \<open>Facts about the functions\<close>

subsection \<open>The empty list\<close>

lemma toFixed2_zero: "toFixed2 0 = ''0.00''"
  by code_simp

lemma visible_Nil: "visible flt [] = []"
  by (simp add: visible_def)

lemma renderExpenses_Nil:
  "expenses st = [] \<Longrightarrow>
   renderExpenses pf st =
     (None, st\<lparr>expenseList := EmptyState
        (if filterCategory st = ''all'' then ''No expenses yet. Add your first expense!''
         else ''No expenses in this category'')\<rparr>)"
  by (simp add: renderExpenses_def Let_def visible_Nil)

lemma updateSummary_Nil:
  "expenses st = [] \<Longrightarrow>
   updateSummary pf st =
     (None, st\<lparr>totalAmount := Rupees ''0.00'', totalCount := 0, highestCategory := ''-''\<rparr>)"
  by (simp add: updateSummary_def Let_def toFixed2_zero)

subsection \<open>Who changes the array\<close>

lemma expenses_saveExpenses: "expenses (saveExpenses pf accepted st) = expenses st"
  by (simp add: saveExpenses_def showError_def)

lemma expenses_renderExpenses: "expenses (snd (renderExpenses pf st)) = expenses st"
  by (simp add: renderExpenses_def Let_def split: option.splits)

lemma expenses_updateSummary: "expenses (snd (updateSummary pf st)) = expenses st"
  by (simp add: updateSummary_def Let_def split: option.splits)

lemma expenses_thenDo:
  assumes "\<And>s. expenses (snd (f s)) = expenses s"
  shows "expenses (snd (thenDo r f)) = expenses (snd r)"
  using assms by (cases r) (auto simp add: thenDo_def split: option.splits)

lemma expenses_refresh:
  "expenses (snd (thenDo (renderExpenses pf st) (updateSummary pf))) = expenses st"
  by (simp add: expenses_thenDo expenses_updateSummary expenses_renderExpenses)

lemma expenses_loadExpenses:
  "expenses (snd (loadExpenses pf st)) =
     (case localStorage st of
        None \<Rightarrow> expenses st
      | Some stored \<Rightarrow>
          if stored = [] then expenses st
          else (case JSON_parse pf stored of Parsed v \<Rightarrow> v | SyntaxError \<Rightarrow> []))"
  by (simp add: loadExpenses_def Let_def expenses_refresh split: option.splits parsed.splits)

text \<open>
  What the program adds to the codec of the platform: nothing. If \<open>JSON.parse\<close> gives the
  list back from the text that \<open>JSON.stringify\<close> wrote for it, and that text is not empty,
  then a page that starts with the slot left by a successful save loads that list.
\<close>

lemma saveExpenses_then_loadExpenses:
  assumes "JSON_parse pf (JSON_stringify pf (expenses st)) = Parsed (expenses st)"
    and "JSON_stringify pf (expenses st) \<noteq> []"
    and "localStorage st' = localStorage (saveExpenses pf True st)"
  shows "expenses (snd (loadExpenses pf st')) = expenses st"
  using assms by (simp add: expenses_loadExpenses saveExpenses_def)

subsection \<open>Validation\<close>

lemma validateInput_refuses:
  assumes "parseFloat pf (amountInput st) = None \<or>
           (\<exists>a. parseFloat pf (amountInput st) = Some a \<and> a \<le> 0) \<or>
           trim (descriptionInput st) = [] \<or> dateInput st = []"
  shows "\<exists>m \<in> {''Please enter a valid amount greater than 0'', ''Please enter a description'',
               ''Please select a date''}.
           validateInput pf st = (False, st\<lparr>errorMessage := Some m\<rparr>)"
  using assms by (auto simp add: validateInput_def showError_def Let_def split: option.splits)

lemma validateInput_accepts:
  assumes "parseFloat pf (amountInput st) = Some a" and "0 < a"
    and "trim (descriptionInput st) \<noteq> []" and "dateInput st \<noteq> []"
  shows "validateInput pf st = (True, st)"
  using assms by (auto simp add: validateInput_def Let_def)

lemma validateInput_True:
  assumes "validateInput pf st = (True, st')"
  shows "st' = st \<and> (\<exists>a. parseFloat pf (amountInput st) = Some a \<and> 0 < a) \<and>
         trim (descriptionInput st) \<noteq> [] \<and> dateInput st \<noteq> []"
  using assms
  by (auto simp add: validateInput_def Let_def split: option.splits if_splits)

lemma validateInput_False:
  assumes "validateInput pf st = (False, st')"
  shows "expenses st' = expenses st"
  using assms
  by (auto simp add: validateInput_def showError_def Let_def split: option.splits if_splits)

subsection \<open>What each operation does to the array\<close>

lemma addExpense_prepends:
  assumes "parseFloat pf (amountInput st) = Some a" and "0 < a"
    and "trim (descriptionInput st) \<noteq> []" and "dateInput st \<noteq> []"
  shows "expenses (snd (addExpense pf now accepted today st)) =
     \<lparr>ident = now, amount = a, description = trim (descriptionInput st),
      category = categorySelect st, date = dateInput st\<rparr> # expenses st"
proof -
  have "expenses (snd (thenDo (thenDo (renderExpenses pf s) (updateSummary pf))
           (\<lambda>s. (None, clearForm today s)))) = expenses s" for s
    by (simp add: expenses_thenDo expenses_refresh clearForm_def)
  then show ?thesis
    using assms
    by (simp add: addExpense_def validateInput_accepts Let_def expenses_saveExpenses)
qed

lemma addExpense_cases:
  "expenses (snd (addExpense pf now accepted today st)) = expenses st \<or>
   (\<exists>e. well_formed e \<and> ident e = now \<and>
        expenses (snd (addExpense pf now accepted today st)) = e # expenses st)"
proof (cases "validateInput pf st")
  case (Pair ok st')
  show ?thesis
  proof (cases ok)
    case False
    with Pair have "addExpense pf now accepted today st = (None, st')"
      by (simp add: addExpense_def)
    moreover from Pair False have "expenses st' = expenses st"
      by (simp add: validateInput_False)
    ultimately show ?thesis by simp
  next
    case True
    with Pair validateInput_True [of pf st st'] obtain a
      where a: "parseFloat pf (amountInput st) = Some a" "0 < a"
        and d: "trim (descriptionInput st) \<noteq> []" "dateInput st \<noteq> []"
      by auto
    let ?e = "\<lparr>ident = now, amount = a, description = trim (descriptionInput st),
      category = categorySelect st, date = dateInput st\<rparr>"
    have "expenses (snd (addExpense pf now accepted today st)) = ?e # expenses st"
      using a d by (rule addExpense_prepends)
    moreover have "well_formed ?e" "ident ?e = now"
      using a d by (simp_all add: well_formed_def)
    ultimately show ?thesis by blast
  qed
qed

lemma deleteExpense_expenses:
  "expenses (snd (deleteExpense pf i True accepted st)) =
     filter (\<lambda>expense. ident expense \<noteq> i) (expenses st)"
  by (simp add: deleteExpense_def Let_def expenses_refresh expenses_saveExpenses)

lemma deleteExpense_cases:
  "expenses (snd (deleteExpense pf i confirmed accepted st)) = expenses st \<or>
   expenses (snd (deleteExpense pf i confirmed accepted st)) =
     filter (\<lambda>expense. ident expense \<noteq> i) (expenses st)"
proof (cases confirmed)
  case True
  then show ?thesis by (simp add: deleteExpense_expenses)
next
  case False
  then show ?thesis by (simp add: deleteExpense_def)
qed

lemma clearAllExpenses_cases:
  "expenses (snd (clearAllExpenses pf confirmed accepted st)) = expenses st \<or>
   expenses (snd (clearAllExpenses pf confirmed accepted st)) = []"
  by (simp add: clearAllExpenses_def Let_def showError_def expenses_refresh
      expenses_saveExpenses)

lemma length_filter_distinct:
  "distinct (map f xs) \<Longrightarrow> x \<in> set xs \<Longrightarrow>
   length (filter (\<lambda>y. f y \<noteq> f x) xs) + 1 = length xs"
proof (induction xs)
  case Nil
  then show ?case by simp
next
  case (Cons y ys)
  show ?case
  proof (cases "f y = f x")
    case True
    with Cons.prems have "f x \<notin> f ` set ys" by simp
    then have "\<forall>z \<in> set ys. f z \<noteq> f x" by (metis image_eqI)
    then have "filter (\<lambda>z. f z \<noteq> f x) ys = ys" by (simp add: filter_id_conv)
    with True show ?thesis by simp
  next
    case False
    with Cons show ?thesis by auto
  qed
qed

subsection \<open>The invariant of the data model along a session\<close>

lemma handle_well_formed:
  assumes "list_all well_formed (expenses st)"
  shows "list_all well_formed (expenses (handle pf st ev))"
proof (cases ev)
  case (ClickAdd now accepted today)
  with assms addExpense_cases [of pf now accepted today st] show ?thesis
    by (auto simp add: handle_def)
next
  case (ClickDelete i confirmed accepted)
  with assms deleteExpense_cases [of pf i confirmed accepted st] show ?thesis
    by (auto simp add: handle_def list_all_iff)
next
  case (ClickClearAll confirmed accepted)
  with assms clearAllExpenses_cases [of pf confirmed accepted st] show ?thesis
    by (auto simp add: handle_def)
qed (use assms in \<open>simp_all add: handle_def expenses_renderExpenses\<close>)

lemma foldl_handle_well_formed:
  "list_all well_formed (expenses st) \<Longrightarrow>
   list_all well_formed (expenses (foldl (handle pf) st evs))"
  by (induction evs arbitrary: st) (simp_all add: handle_well_formed)

subsection \<open>The platform and the pages of the examples\<close>

lemma browser_fields:
  "parseFloat browser = read_decimal"
  "JSON_parse browser ''[{'' = SyntaxError"
  "JSON_parse browser free_lunch_text = Parsed [free_lunch]"
  "option_text browser ''food'' = Some ''F Food''"
  "option_text browser ''transport'' = Some ''T Transport''"
  "option_text browser ''constructor'' = Some ''C Constructor''"
  "option_text browser ''1'' = Some ''A One''"
  "option_text browser ''2'' = Some ''B Two''"
  "toLocaleDateString browser d = d"
  by (simp_all add: browser_def free_lunch_text_def)

lemma fresh_page_fields:
  "expenses fresh_page = []"
  "localStorage fresh_page = None"
  "amountInput fresh_page = []"
  "descriptionInput fresh_page = []"
  "categorySelect fresh_page = ''food''"
  "dateInput fresh_page = ''2025-01-26''"
  "filterCategory fresh_page = ''all''"
  by (simp_all add: fresh_page_def)

lemma read_decimal_examples:
  "read_decimal ''50'' = Some 50"
  "read_decimal ''12.5'' = Some (25 / 2)"
  "read_decimal ''-5'' = Some (- 5)"
  by code_simp+

lemma trim_examples:
  "trim '' snack '' = ''snack''"
  "trim '' tea '' = ''tea''"
  by code_simp+

subsection \<open>The totals object and the sorted entries\<close>

lemma set_first_seen: "set (first_seen xs) = set xs"
  by (induction xs) auto

lemma distinct_first_seen: "distinct (first_seen xs)"
  by (induction xs) auto

lemma first_seen_snoc:
  "first_seen (xs @ [x]) = (if x \<in> set xs then first_seen xs else first_seen xs @ [x])"
  by (induction xs) (auto simp add: set_first_seen)

lemma map_of_graph:
  "map_of (map (\<lambda>c. (c, g c)) ks) k = (if k \<in> set ks then Some (g k) else None)"
  by (induction ks) auto

lemma set_property_graph:
  "distinct ks \<Longrightarrow>
   set_property k v (map (\<lambda>c. (c, g c)) ks) =
     (if k \<in> set ks then map (\<lambda>c. (c, if c = k then v else g c)) ks
      else map (\<lambda>c. (c, g c)) ks @ [(k, v)])"
  by (induction ks) auto

lemma group_sum_snoc:
  "group_sum (es @ [e]) c = group_sum es c + (if category e = c then amount e else 0)"
  by (simp add: group_sum_def)

lemma group_sum_absent: "c \<notin> category ` set es \<Longrightarrow> group_sum es c = 0"
proof -
  assume "c \<notin> category ` set es"
  then have "filter (\<lambda>e. category e = c) es = []"
    by (auto simp add: filter_empty_conv)
  then show ?thesis by (simp add: group_sum_def)
qed

lemma proto_not_ordinary: "''__proto__'' \<in> set Object_prototype_names"
  by (simp add: Object_prototype_names_def)

lemma add_total_graph:
  assumes "category e \<notin> set Object_prototype_names" and "distinct ks"
  shows "add_total (map (\<lambda>c. (c, Num (g c))) ks) e =
     (if category e \<in> set ks
      then map (\<lambda>c. (c, Num (if c = category e then g c + amount e else g c))) ks
      else map (\<lambda>c. (c, Num (g c))) ks @ [(category e, Num (amount e))])"
proof -
  from assms(1) proto_not_ordinary have k: "category e \<noteq> ''__proto__''" by metis
  show ?thesis
  proof (cases "category e \<in> set ks")
    case True
    then have "add_total (map (\<lambda>c. (c, Num (g c))) ks) e =
        set_property (category e) (Num (g (category e) + amount e)) (map (\<lambda>c. (c, Num (g c))) ks)"
      using k by (simp add: add_total_def Let_def map_of_graph)
    also have "\<dots> = map (\<lambda>c. (c, if c = category e then Num (g (category e) + amount e) else Num (g c))) ks"
      using True assms(2) by (simp add: set_property_graph)
    also have "\<dots> = map (\<lambda>c. (c, Num (if c = category e then g c + amount e else g c))) ks"
      by (rule map_cong) auto
    finally show ?thesis using True by simp
  next
    case False
    then have "add_total (map (\<lambda>c. (c, Num (g c))) ks) e =
        set_property (category e) (Num (amount e)) (map (\<lambda>c. (c, Num (g c))) ks)"
      using k assms(1) by (simp add: add_total_def Let_def map_of_graph)
    then show ?thesis
      using False assms(2) by (simp add: set_property_graph)
  qed
qed

lemma categoryTotals_graph:
  "\<forall>e \<in> set es. category e \<notin> set Object_prototype_names \<Longrightarrow>
   categoryTotals es =
     map (\<lambda>c. (c, Num (group_sum es c))) (first_seen (map category es))"
proof (induction es rule: rev_induct)
  case Nil
  then show ?case by (simp add: categoryTotals_def)
next
  case (snoc e es)
  let ?ks = "first_seen (map category es)"
  have ih: "categoryTotals es = map (\<lambda>c. (c, Num (group_sum es c))) ?ks"
    using snoc by simp
  have e: "category e \<notin> set Object_prototype_names"
    using snoc.prems by simp
  have step: "categoryTotals (es @ [e]) = add_total (categoryTotals es) e"
    by (simp add: categoryTotals_def)
  show ?case
  proof (cases "category e \<in> category ` set es")
    case True
    then have "categoryTotals (es @ [e]) =
        map (\<lambda>c. (c, Num (if c = category e then group_sum es c + amount e else group_sum es c))) ?ks"
      by (simp add: step ih add_total_graph [OF e] distinct_first_seen set_first_seen)
    also have "\<dots> = map (\<lambda>c. (c, Num (group_sum (es @ [e]) c))) ?ks"
      by (rule map_cong) (auto simp add: group_sum_snoc)
    finally show ?thesis
      using True by (simp add: first_seen_snoc)
  next
    case False
    then have "categoryTotals (es @ [e]) =
        map (\<lambda>c. (c, Num (group_sum es c))) ?ks @ [(category e, Num (amount e))]"
      by (simp add: step ih add_total_graph [OF e] distinct_first_seen set_first_seen)
    also have "map (\<lambda>c. (c, Num (group_sum es c))) ?ks =
        map (\<lambda>c. (c, Num (group_sum (es @ [e]) c))) ?ks"
      using False by (intro map_cong) (auto simp add: group_sum_snoc set_first_seen)
    finally show ?thesis
      using False by (simp add: first_seen_snoc group_sum_snoc group_sum_absent)
  qed
qed

lemma sortCompare_Num:
  "snd a = Num x \<Longrightarrow> snd b = Num y \<Longrightarrow> sortCompare a b = y - x"
  by (simp add: sortCompare_def compareFn_def)

lemma js_sort_snoc: "js_sort (xs @ [y]) = insert_sorted y (js_sort xs)"
  by (simp add: js_sort_def)

lemma js_sort_head:
  assumes "\<forall>x \<in> set xs. \<exists>r. snd x = Num r" and "xs \<noteq> []"
  shows "\<exists>pre h post rest. xs = pre @ h # post \<and> js_sort xs = h # rest \<and>
     (\<forall>x \<in> set pre. number_of (snd x) < number_of (snd h)) \<and>
     (\<forall>x \<in> set post. number_of (snd x) \<le> number_of (snd h))"
  using assms
proof (induction xs rule: rev_induct)
  case Nil
  then show ?case by simp
next
  case (snoc y ys)
  show ?case
  proof (cases "ys = []")
    case True
    then have "js_sort (ys @ [y]) = [y]" by (simp add: js_sort_def)
    with True show ?thesis by fastforce
  next
    case False
    have "\<forall>x \<in> set ys. \<exists>r. snd x = Num r"
      using snoc.prems(1) by simp
    from snoc.IH [OF this False] obtain pre h post rest
      where ys: "ys = pre @ h # post" and s: "js_sort ys = h # rest"
        and lt: "\<forall>x \<in> set pre. number_of (snd x) < number_of (snd h)"
        and le: "\<forall>x \<in> set post. number_of (snd x) \<le> number_of (snd h)"
      by blast
    from snoc.prems(1) ys obtain a b where a: "snd y = Num a" and b: "snd h = Num b"
      by auto
    have c: "sortCompare y h = b - a"
      using a b by (rule sortCompare_Num)
    show ?thesis
    proof (cases "b < a")
      case True
      then have "js_sort (ys @ [y]) = y # h # rest"
        using c by (simp add: js_sort_snoc s)
      moreover have "\<forall>x \<in> set ys. number_of (snd x) < number_of (snd y)"
        using True lt le a b ys by fastforce
      ultimately show ?thesis
        by (metis append_Nil2 empty_iff list.set(1))
    next
      case False
      then have "js_sort (ys @ [y]) = h # insert_sorted y rest"
        using c by (simp add: js_sort_snoc s)
      moreover have "ys @ [y] = pre @ h # (post @ [y])"
        using ys by simp
      moreover have "\<forall>x \<in> set (post @ [y]). number_of (snd x) \<le> number_of (snd h)"
        using False le a b by auto
      ultimately show ?thesis
        using lt by blast
    qed
  qed
qed




lemma set_Object_entries: "set (Object_entries obj) = set obj"
  by (auto simp add: Object_entries_def)


lemma highest_largest:
  assumes "es \<noteq> []" and "\<forall>e \<in> set es. category e \<notin> set Object_prototype_names"
  shows "\<exists>c \<in> category ` set es. highest es = Some (c, Num (group_sum es c)) \<and>
           (\<forall>e \<in> set es. group_sum es (category e) \<le> group_sum es c)"
proof -
  let ?f = "\<lambda>c. (c, Num (group_sum es c))"
  let ?ks = "first_seen (map category es)"
  have acc: "categoryTotals es = map ?f ?ks"
    using assms(2) by (rule categoryTotals_graph)
  let ?xs = "Object_entries (categoryTotals es)"
  have set_xs: "set ?xs = ?f ` category ` set es"
    by (simp add: set_Object_entries acc set_first_seen)
  then have num: "\<forall>x \<in> set ?xs. \<exists>r. snd x = Num r" by auto
  from assms(1) set_xs have "?xs \<noteq> []" by auto
  from js_sort_head [OF num this] obtain pre h post rest
    where xs: "?xs = pre @ h # post" and s: "js_sort ?xs = h # rest"
      and lt: "\<forall>x \<in> set pre. number_of (snd x) < number_of (snd h)"
      and le: "\<forall>x \<in> set post. number_of (snd x) \<le> number_of (snd h)"
    by blast
  have all: "\<forall>x \<in> set ?xs. number_of (snd x) \<le> number_of (snd h)"
    using lt le by (auto simp add: xs less_imp_le)
  have "h \<in> set ?xs" by (simp add: xs)
  with set_xs obtain c where c: "c \<in> category ` set es" and h: "h = ?f c" by auto
  have "highest es = Some (c, Num (group_sum es c))"
    by (simp add: highest_def s h)
  moreover have "group_sum es (category e) \<le> group_sum es c" if "e \<in> set es" for e
  proof -
    from that have "?f (category e) \<in> set ?xs" by (simp add: set_xs)
    with all h show ?thesis by fastforce
  qed
  ultimately show ?thesis using c by blast
qed


lemma foldl_amount:
  "foldl (\<lambda>sum e. sum + amount e) a es = a + sum_list (map amount es)"
  by (induction es arbitrary: a) (simp_all add: add.assoc)


lemma example_evaluations:
  "highest [lunch, snack, bus_fare] = Some (''food'', Num 150)"
  "toFixed2 180 = ''180.00''"
  "highest [builder_fee, lunch] = Some (''constructor'', Text)"
  "toFixed2 103 = ''103.00''"
  "group_sum [builder_fee, lunch] ''constructor'' = 3"
  "group_sum [builder_fee, lunch] ''food'' = 100"
  "highest [second_class, first_class] = Some (''1'', Num 30)"
  "group_sum [second_class, first_class] ''1'' = 30"
  "group_sum [second_class, first_class] ''2'' = 30"
  "highest [bus_fare, cake, coffee] = Some (''transport'', Num 30)"
  "group_sum [bus_fare, cake, coffee] ''transport'' = 30"
  "group_sum [bus_fare, cake, coffee] ''food'' = 30"
  by code_simp+

lemma field_examples:
  "amount lunch = 100" "amount snack = 50" "amount bus_fare = 30" "amount builder_fee = 3"
  "category second_class = ''2''" "category first_class = ''1''"
  by (simp_all add: lunch_def snack_def bus_fare_def builder_fee_def second_class_def
      first_class_def)

lemma ordinary_examples:
  "list_all (\<lambda>e. category e \<notin> set Object_prototype_names \<and> \<not> is_array_index (category e))
     [lunch, snack, bus_fare, cake, coffee]"
  by code_simp

section \<open>The claims\<close>

subsection \<open>C1: loading an absent, empty or malformed slot\<close>

text \<open>
  C1. The script starts with \<open>expenses = []\<close> (line 4) and calls \<open>loadExpenses\<close> once. If
  the slot is absent (\<open>getItem\<close> gives \<open>null\<close>), holds the empty text, or holds a text that
  \<open>JSON.parse\<close> rejects, then \<open>loadExpenses\<close> ends without an exception, the array is
  empty, the list shows the empty-state message and the summary shows \<open>0.00\<close>, \<open>0\<close> and
  \<open>-\<close>; nothing else of the page changes. Malformed means rejected by \<open>JSON.parse\<close>: that
  is the case the \<open>catch\<close> of the source handles.
\<close>

theorem loadExpenses_fallback:
  assumes "expenses st = []"
    and "localStorage st = None \<or> localStorage st = Some [] \<or>
         (\<exists>stored. localStorage st = Some stored \<and> JSON_parse pf stored = SyntaxError)"
  shows "loadExpenses pf st =
     (None, st\<lparr>expenses := [],
        expenseList := EmptyState
          (if filterCategory st = ''all'' then ''No expenses yet. Add your first expense!''
           else ''No expenses in this category''),
        totalAmount := Rupees ''0.00'', totalCount := 0, highestCategory := ''-''\<rparr>)"
proof -
  let ?st1 = "st\<lparr>expenses := []\<rparr>"
  let ?shown = "EmptyState
          (if filterCategory st = ''all'' then ''No expenses yet. Add your first expense!''
           else ''No expenses in this category'')"
  have assigned: "(case localStorage st of
           None \<Rightarrow> st
         | Some stored \<Rightarrow>
             if stored = [] then st
             else (case JSON_parse pf stored of
                     Parsed v \<Rightarrow> st\<lparr>expenses := v\<rparr>
                   | SyntaxError \<Rightarrow> st\<lparr>expenses := []\<rparr>)) = ?st1"
    using assms by (auto split: option.splits parsed.splits)
  have "loadExpenses pf st = thenDo (renderExpenses pf ?st1) (updateSummary pf)"
    unfolding loadExpenses_def assigned by (simp add: Let_def)
  also have "\<dots> = updateSummary pf (?st1\<lparr>expenseList := ?shown\<rparr>)"
    by (simp add: renderExpenses_Nil thenDo_def)
  also have "\<dots> = (None, st\<lparr>expenses := [], expenseList := ?shown,
        totalAmount := Rupees ''0.00'', totalCount := 0, highestCategory := ''-''\<rparr>)"
    by (simp add: updateSummary_Nil)
  finally show ?thesis .
qed

text \<open>The theorem at a slot that holds a truncated text.\<close>

theorem loadExpenses_fallback_witness:
  "expenses (fresh_page\<lparr>localStorage := Some ''[{'' \<rparr>) = [] \<and>
   JSON_parse browser ''[{'' = SyntaxError \<and>
   loadExpenses browser (fresh_page\<lparr>localStorage := Some ''[{'' \<rparr>) =
     (None, fresh_page\<lparr>localStorage := Some ''[{'',
        expenseList := EmptyState ''No expenses yet. Add your first expense!'',
        totalAmount := Rupees ''0.00'', totalCount := 0, highestCategory := ''-''\<rparr>)"
  using loadExpenses_fallback [of "fresh_page\<lparr>localStorage := Some ''[{'' \<rparr>" browser]
  by (simp add: fresh_page_def browser_def free_lunch_text_def)

subsection \<open>C3: adding a record\<close>

text \<open>
  C3. \<open>addExpense\<close> takes the identifier of the new record from the clock
  (\<open>id: Date.now()\<close>, commented \<open>Unique ID based on timestamp\<close>) and never compares it with
  the identifiers in the list. With one record stored under the identifier
  \<open>1737900000003\<close> and a valid draft typed in, a call at the clock reading
  \<open>1737900000003\<close> puts a second record with that identifier in front of the first: the
  list grows by one and the new record is first, but its identifier is not fresh.
\<close>

theorem addExpense_repeats_ident:
  "ident lunch = 1737900000003 \<and> expenses after_lunch = [lunch] \<and>
   expenses (snd (addExpense browser 1737900000003 True ''2025-01-26'' after_lunch)) =
     [\<lparr>ident = 1737900000003, amount = 50, description = ''snack'', category = ''food'',
       date = ''2025-01-26''\<rparr>, lunch]"
  using addExpense_prepends [of browser after_lunch 50 1737900000003 True "''2025-01-26''"]
  by (simp add: after_lunch_def fresh_page_fields browser_fields read_decimal_examples
      trim_examples lunch_def)

subsection \<open>C4: deleting a record\<close>

text \<open>
  C4, as the claim states it, fails on a list in which two records carry the same
  identifier (such a list arises from two additions at one clock reading, see C3):
  \<open>deleteExpense\<close> filters out every record with the identifier, so the list of two
  shrinks by two.
\<close>

theorem deleteExpense_removes_both_twins:
  "length (expenses twins) = 2 \<and> 1737900000003 \<in> ident ` set (expenses twins) \<and>
   expenses (snd (deleteExpense browser 1737900000003 True True twins)) = []"
  by (simp add: twins_def fresh_page_def lunch_def snack_def deleteExpense_expenses)

text \<open>
  C4, amended. Once the prompt is confirmed, no record with the identifier remains; if no
  record had the identifier the list is unchanged; if a record had it and the identifiers
  of the list are pairwise distinct, the list is shorter by exactly one. If the prompt is
  declined nothing changes at all.
\<close>

theorem deleteExpense_removes:
  "i \<notin> ident ` set (expenses (snd (deleteExpense pf i True accepted st))) \<and>
   (i \<notin> ident ` set (expenses st) \<longrightarrow>
      expenses (snd (deleteExpense pf i True accepted st)) = expenses st) \<and>
   (i \<in> ident ` set (expenses st) \<and> distinct (map ident (expenses st)) \<longrightarrow>
      length (expenses (snd (deleteExpense pf i True accepted st))) + 1 =
        length (expenses st)) \<and>
   deleteExpense pf i False accepted st = (None, st)"
proof -
  have a: "i \<notin> ident ` set (expenses (snd (deleteExpense pf i True accepted st)))"
    by (auto simp add: deleteExpense_expenses)
  have b: "expenses (snd (deleteExpense pf i True accepted st)) = expenses st"
    if "i \<notin> ident ` set (expenses st)"
    using that by (auto simp add: deleteExpense_expenses filter_id_conv)
  have c: "length (expenses (snd (deleteExpense pf i True accepted st))) + 1 =
      length (expenses st)"
    if "i \<in> ident ` set (expenses st)" and "distinct (map ident (expenses st))"
  proof -
    from that(1) obtain x where "x \<in> set (expenses st)" and "i = ident x" by auto
    with that(2) show ?thesis
      using length_filter_distinct [of ident "expenses st" x]
      by (simp add: deleteExpense_expenses)
  qed
  have d: "deleteExpense pf i False accepted st = (None, st)"
    by (simp add: deleteExpense_def)
  from a b c d show ?thesis by blast
qed

text \<open>The theorem on the three records of the example: deleting the middle one, and
  deleting an identifier that is not there.\<close>

theorem deleteExpense_removes_witness:
  "1737900000002 \<in> ident ` set (expenses full_page) \<and>
   distinct (map ident (expenses full_page)) \<and>
   expenses (snd (deleteExpense browser 1737900000002 True True full_page)) =
     [lunch, bus_fare] \<and>
   length (expenses (snd (deleteExpense browser 1737900000002 True True full_page))) + 1 =
     length (expenses full_page) \<and>
   7 \<notin> ident ` set (expenses full_page) \<and>
   expenses (snd (deleteExpense browser 7 True True full_page)) = expenses full_page"
  using deleteExpense_removes [of 1737900000002 browser True full_page]
    deleteExpense_removes [of 7 browser True full_page]
  by (simp add: full_page_def fresh_page_def lunch_def snack_def bus_fare_def
      deleteExpense_expenses)

subsection \<open>C5: refusing a draft\<close>

text \<open>
  C5. If \<open>parseFloat\<close> of the amount text is NaN (the text is missing or does not start
  with a number), or is \<open>0\<close> or negative, or the description is empty after trimming, or
  no date is chosen, then \<open>addExpense\<close> returns without an exception and the only change of
  the state is the message on display, one of the three of \<open>validateInput\<close>: the array,
  the storage slot, the form and the rendered page are as before.
\<close>

theorem addExpense_refuses:
  assumes "parseFloat pf (amountInput st) = None \<or>
           (\<exists>a. parseFloat pf (amountInput st) = Some a \<and> a \<le> 0) \<or>
           trim (descriptionInput st) = [] \<or> dateInput st = []"
  shows "\<exists>m \<in> {''Please enter a valid amount greater than 0'', ''Please enter a description'',
               ''Please select a date''}.
           addExpense pf now accepted today st = (None, st\<lparr>errorMessage := Some m\<rparr>)"
proof -
  from validateInput_refuses [OF assms] obtain m
    where m: "m \<in> {''Please enter a valid amount greater than 0'',
               ''Please enter a description'', ''Please select a date''}"
      and v: "validateInput pf st = (False, st\<lparr>errorMessage := Some m\<rparr>)"
    by blast
  have "addExpense pf now accepted today st = (None, st\<lparr>errorMessage := Some m\<rparr>)"
    by (simp add: addExpense_def v)
  with m show ?thesis by blast
qed

text \<open>The theorem at the amount text \<open>-5\<close>.\<close>

theorem addExpense_refuses_witness:
  "parseFloat browser
     (amountInput (fresh_page\<lparr>amountInput := ''-5'', descriptionInput := ''tea''\<rparr>)) =
     Some (- 5) \<and>
   addExpense browser 1737900000000 True ''2025-01-26''
     (fresh_page\<lparr>amountInput := ''-5'', descriptionInput := ''tea''\<rparr>) =
   (None, fresh_page\<lparr>amountInput := ''-5'', descriptionInput := ''tea'',
       errorMessage := Some ''Please enter a valid amount greater than 0''\<rparr>)"
  using addExpense_refuses [of browser
      "fresh_page\<lparr>amountInput := ''-5'', descriptionInput := ''tea''\<rparr>"
      1737900000000 True "''2025-01-26''"]
  by (simp add: browser_fields read_decimal_examples addExpense_def validateInput_def
      showError_def)

subsection \<open>C6: positive amounts and descriptions that are not empty\<close>

text \<open>
  C6, as the claim states it, fails at the first step: \<open>loadExpenses\<close> installs whatever
  array \<open>JSON.parse\<close> returns and checks no field of it. From a slot that holds one record
  with the amount \<open>-5\<close> and an empty description, the session starts with that record in
  the list.
\<close>

theorem session_loads_any_record:
  "expenses (fresh_page\<lparr>localStorage := Some free_lunch_text\<rparr>) = [] \<and>
   expenses (session browser (fresh_page\<lparr>localStorage := Some free_lunch_text\<rparr>) []) =
     [free_lunch] \<and>
   \<not> 0 < amount free_lunch \<and> description free_lunch = []"
  by (simp add: session_def expenses_loadExpenses fresh_page_def browser_def
      free_lunch_text_def free_lunch_def)

text \<open>
  C6, amended. Let the script start with the empty array and a slot that is absent, holds
  the empty text, holds a text that \<open>JSON.parse\<close> rejects, or holds an array whose records
  all have a positive amount and a description that is not empty. Then after the load and
  any sequence of events (typing, filtering, adding, deleting, clearing, with any answers
  to the prompts, any clock and any storage failures) every record of the list has a
  positive amount and a description that is not empty.
\<close>

theorem session_well_formed:
  assumes "expenses st = []"
    and "case localStorage st of
           None \<Rightarrow> True
         | Some stored \<Rightarrow>
             stored = [] \<or>
             (case JSON_parse pf stored of
                SyntaxError \<Rightarrow> True
              | Parsed v \<Rightarrow> list_all well_formed v)"
  shows "list_all well_formed (expenses (session pf st evs))"
proof -
  have "list_all well_formed (expenses (snd (loadExpenses pf st)))"
    using assms by (auto simp add: expenses_loadExpenses split: option.splits parsed.splits)
  then show ?thesis
    unfolding session_def by (rule foldl_handle_well_formed)
qed

text \<open>The theorem on a session that starts from a truncated text, adds one record and
  deletes an identifier that is not there.\<close>

theorem session_well_formed_witness:
  "expenses (fresh_page\<lparr>localStorage := Some ''[{''\<rparr>) = [] \<and>
   JSON_parse browser ''[{'' = SyntaxError \<and>
   list_all well_formed
     (expenses (session browser (fresh_page\<lparr>localStorage := Some ''[{''\<rparr>)
        [TypeAmount ''12.5'', TypeDescription '' tea '',
         ClickAdd 1737900000000 True ''2025-01-26'', ClickDelete 5 True True])) \<and>
   expenses (session browser (fresh_page\<lparr>localStorage := Some ''[{''\<rparr>)
      [TypeAmount ''12.5'', TypeDescription '' tea '',
       ClickAdd 1737900000000 True ''2025-01-26'', ClickDelete 5 True True]) =
     [\<lparr>ident = 1737900000000, amount = 25 / 2, description = ''tea'', category = ''food'',
       date = ''2025-01-26''\<rparr>]"
proof -
  let ?st = "fresh_page\<lparr>localStorage := Some ''[{''\<rparr>"
  let ?evs = "[TypeAmount ''12.5'', TypeDescription '' tea '',
       ClickAdd 1737900000000 True ''2025-01-26'', ClickDelete 5 True True]"
  have l: "loadExpenses browser ?st = (None, ?st\<lparr>expenses := [],
        expenseList := EmptyState ''No expenses yet. Add your first expense!'',
        totalAmount := Rupees ''0.00'', totalCount := 0, highestCategory := ''-''\<rparr>)"
    by (simp add: loadExpenses_def Let_def browser_fields renderExpenses_Nil
        updateSummary_Nil thenDo_def fresh_page_fields)
  have e: "expenses (session browser ?st ?evs) =
     [\<lparr>ident = 1737900000000, amount = 25 / 2, description = ''tea'', category = ''food'',
       date = ''2025-01-26''\<rparr>]"
    using addExpense_prepends [of browser "?st\<lparr>expenses := [],
        expenseList := EmptyState ''No expenses yet. Add your first expense!'',
        totalAmount := Rupees ''0.00'', totalCount := 0, highestCategory := ''-'',
        amountInput := ''12.5'', descriptionInput := '' tea ''\<rparr>"
        "25 / 2" 1737900000000 True "''2025-01-26''"]
    by (simp add: session_def l handle_def deleteExpense_expenses fresh_page_fields
        browser_fields read_decimal_examples trim_examples)
  show ?thesis
    using session_well_formed [of ?st browser ?evs] e
    by (simp add: fresh_page_fields browser_fields)
qed

subsection \<open>C7: the leading category\<close>

text \<open>
  C7, as the claim states it, fails when a category code is the name of a member that
  every object inherits from \<open>Object.prototype\<close>. For such a key \<open>acc[key] || 0\<close> is the
  inherited member, \<open>+\<close> concatenates, the total becomes a text, and the comparator yields
  NaN for it. On a list with \<open>3\<close> spent under the code \<open>constructor\<close> and then \<open>100\<close> under
  \<open>food\<close>, \<open>highest\<close> is the entry of \<open>constructor\<close>, and the summary shows the first
  word of the label of that option.
\<close>

theorem highest_follows_inherited_name:
  "highest [builder_fee, lunch] = Some (''constructor'', Text) \<and>
   group_sum [builder_fee, lunch] ''constructor'' = 3 \<and>
   group_sum [builder_fee, lunch] ''food'' = 100 \<and>
   updateSummary browser (fresh_page\<lparr>expenses := [builder_fee, lunch]\<rparr>) =
     (None, fresh_page\<lparr>expenses := [builder_fee, lunch], totalAmount := Rupees ''103.00'',
        totalCount := 2, highestCategory := ''C''\<rparr>)"
  by (simp add: updateSummary_def Let_def foldl_amount example_evaluations field_examples
      browser_fields numeral_2_eq_2)

text \<open>
  C7, amended. For every list the summary shows the sum of all amounts with two decimals
  and the number of records. If the list is not empty and no category code of it is the
  name of a member of \<open>Object.prototype\<close>, then \<open>highest\<close> is a category of the list
  together with the sum of the amounts of its records, and no category of the list has a
  larger sum; the summary then shows what stands before the first space in the label of
  that category's option, and \<open>updateSummary\<close> throws a \<open>TypeError\<close> when the select has no
  such option. On the three records of the example (\<open>100\<close> and \<open>50\<close> under \<open>food\<close>, \<open>30\<close>
  under \<open>transport\<close>) the total is \<open>180.00\<close>, the count is \<open>3\<close> and the leading category
  is \<open>food\<close>, shown as the first word of its label.
\<close>

theorem updateSummary_leader:
  "totalAmount (snd (updateSummary pf st)) =
     Rupees (toFixed2 (sum_list (map amount (expenses st)))) \<and>
   totalCount (snd (updateSummary pf st)) = length (expenses st) \<and>
   (expenses st \<noteq> [] \<and>
    (\<forall>e \<in> set (expenses st). category e \<notin> set Object_prototype_names) \<longrightarrow>
      (\<exists>c \<in> category ` set (expenses st).
          highest (expenses st) = Some (c, Num (group_sum (expenses st) c)) \<and>
          (\<forall>e \<in> set (expenses st).
              group_sum (expenses st) (category e) \<le> group_sum (expenses st) c) \<and>
          (case option_text pf c of
             None \<Rightarrow> fst (updateSummary pf st) = Some TypeError
           | Some categoryName \<Rightarrow>
               fst (updateSummary pf st) = None \<and>
               highestCategory (snd (updateSummary pf st)) =
                 takeWhile (\<lambda>x. x \<noteq> CHR '' '') categoryName))) \<and>
   highest (expenses full_page) = Some (''food'', Num 150) \<and>
   updateSummary browser full_page =
     (None, full_page\<lparr>totalAmount := Rupees ''180.00'', totalCount := 3,
        highestCategory := ''F''\<rparr>)"
proof -
  have total: "totalAmount (snd (updateSummary pf st)) =
      Rupees (toFixed2 (sum_list (map amount (expenses st))))"
    by (simp add: updateSummary_def Let_def foldl_amount split: option.splits)
  have count: "totalCount (snd (updateSummary pf st)) = length (expenses st)"
    by (simp add: updateSummary_def Let_def split: option.splits)
  have leader: "\<exists>c \<in> category ` set (expenses st).
          highest (expenses st) = Some (c, Num (group_sum (expenses st) c)) \<and>
          (\<forall>e \<in> set (expenses st).
              group_sum (expenses st) (category e) \<le> group_sum (expenses st) c) \<and>
          (case option_text pf c of
             None \<Rightarrow> fst (updateSummary pf st) = Some TypeError
           | Some categoryName \<Rightarrow>
               fst (updateSummary pf st) = None \<and>
               highestCategory (snd (updateSummary pf st)) =
                 takeWhile (\<lambda>x. x \<noteq> CHR '' '') categoryName)"
    if "expenses st \<noteq> []"
      and "\<forall>e \<in> set (expenses st). category e \<notin> set Object_prototype_names"
  proof -
    from highest_largest [OF that] obtain c
      where c: "c \<in> category ` set (expenses st)"
        and h: "highest (expenses st) = Some (c, Num (group_sum (expenses st) c))"
        and m: "\<forall>e \<in> set (expenses st).
              group_sum (expenses st) (category e) \<le> group_sum (expenses st) c"
      by blast
    have "case option_text pf c of
             None \<Rightarrow> fst (updateSummary pf st) = Some TypeError
           | Some categoryName \<Rightarrow>
               fst (updateSummary pf st) = None \<and>
               highestCategory (snd (updateSummary pf st)) =
                 takeWhile (\<lambda>x. x \<noteq> CHR '' '') categoryName"
      using that(1) by (simp add: updateSummary_def Let_def h split: option.splits)
    with c h m show ?thesis by blast
  qed
  have list: "expenses full_page = [lunch, snack, bus_fare]"
    by (simp add: full_page_def)
  have example: "updateSummary browser full_page =
     (None, full_page\<lparr>totalAmount := Rupees ''180.00'', totalCount := 3,
        highestCategory := ''F''\<rparr>)"
    by (simp add: updateSummary_def Let_def list foldl_amount example_evaluations
        field_examples browser_fields numeral_3_eq_3)
  from total count leader example show ?thesis
    by (simp add: list example_evaluations)
qed

text \<open>The general part of the theorem at the three records of the example.\<close>

theorem updateSummary_leader_witness:
  "expenses full_page \<noteq> [] \<and>
   list_all (\<lambda>e. category e \<notin> set Object_prototype_names) (expenses full_page) \<and>
   totalCount (snd (updateSummary browser full_page)) = 3 \<and>
   (\<exists>c \<in> category ` set (expenses full_page).
      highest (expenses full_page) = Some (c, Num (group_sum (expenses full_page) c)) \<and>
      (\<forall>e \<in> set (expenses full_page).
          group_sum (expenses full_page) (category e) \<le> group_sum (expenses full_page) c))"
proof -
  have list: "expenses full_page = [lunch, snack, bus_fare]"
    by (simp add: full_page_def)
  have ordinary: "list_all (\<lambda>e. category e \<notin> set Object_prototype_names)
      (expenses full_page)"
    using ordinary_examples by (simp add: list)
  then have "\<forall>e \<in> set (expenses full_page). category e \<notin> set Object_prototype_names"
    by (simp add: list_all_iff)
  with updateSummary_leader [of browser full_page] ordinary show ?thesis
    by (auto simp add: list split: option.splits)
qed

subsection \<open>C8: the summary of the empty list\<close>

text \<open>
  C8. On the empty list \<open>updateSummary\<close> ends without an exception and writes the total
  \<open>0.00\<close> (after the rupee sign), the count \<open>0\<close> and the sentinel \<open>-\<close> for the leading
  category; it changes nothing else.
\<close>

theorem updateSummary_empty:
  "expenses st = [] \<Longrightarrow>
   updateSummary pf st =
     (None, st\<lparr>totalAmount := Rupees ''0.00'', totalCount := 0, highestCategory := ''-''\<rparr>)"
  by (simp add: updateSummary_def Let_def toFixed2_zero)

theorem updateSummary_empty_witness:
  "expenses fresh_page = [] \<and>
   updateSummary browser fresh_page =
     (None, fresh_page\<lparr>totalAmount := Rupees ''0.00'', totalCount := 0,
        highestCategory := ''-''\<rparr>)"
  using updateSummary_empty [of fresh_page browser] by (simp add: fresh_page_def)

subsection \<open>C9: the visible records\<close>

text \<open>
  C9. The list that \<open>renderExpenses\<close> shows: under the filter \<open>all\<close> it is the whole list,
  unchanged; under any other filter it is a subsequence of the list (the relative order is
  kept), it holds each record of that category as often as the list does, and a record of
  the list is in it exactly when its category equals the filter.
\<close>

theorem visible_subsequence:
  "visible ''all'' es = es \<and>
   (flt \<noteq> ''all'' \<longrightarrow>
      subseq (visible flt es) es \<and>
      mset (visible flt es) = filter_mset (\<lambda>e. category e = flt) (mset es) \<and>
      (\<forall>e \<in> set es. e \<in> set (visible flt es) \<longleftrightarrow> category e = flt))"
  by (auto simp add: visible_def)

text \<open>The theorem at the filter \<open>food\<close> and a list with a record of another category
  in the middle.\<close>

theorem visible_subsequence_witness:
  "''food'' \<noteq> ''all'' \<and>
   visible ''all'' [lunch, bus_fare, snack] = [lunch, bus_fare, snack] \<and>
   visible ''food'' [lunch, bus_fare, snack] = [lunch, snack] \<and>
   subseq (visible ''food'' [lunch, bus_fare, snack]) [lunch, bus_fare, snack]"
  using visible_subsequence [of "[lunch, bus_fare, snack]" "''food''"]
  by (simp add: visible_def lunch_def bus_fare_def snack_def)

subsection \<open>C10: ties for the leading category\<close>




end
